theory Spec2Isabelle
  imports Complex_Main "HOL-Library.Sublist"
begin

section \<open>Data model of \<open>authorize.ts\<close>\<close>

text \<open>
  Access levels stored in \<open>AuthInfo.access\<close>, and the minimum level a middleware is
  created with (\<open>authorize(minAccess, allowUnauthorized)\<close>).
\<close>

datatype Access = AccessNone | AccessRead | AccessWrite

datatype MinAccess = MinRead | MinWrite | MinOwner

text \<open>
  A value produced by \<open>JSON.parse\<close>. An object keeps its members as an association
  list with one entry for each name (\<open>JSON.parse\<close> keeps the last of repeated
  members); \<open>getProp\<close> reads a member.
\<close>

datatype json =
    JNull
  | JBool bool
  | JNum real
  | JStr string
  | JArr "json list"
  | JObj "(string \<times> json) list"

text \<open>
  Modelled from the spec: the type \<open>Apikey\<close> is declared in \<open>model/auth.js\<close>, which is
  not among the sources. The fields are those the middleware reads; the spec's
  KeyRecord lists them as owner id, locked, disabled and an optional description.
\<close>

record Apikey =
  iam_id :: string
  locked :: bool
  disabled :: bool
  description :: "string option"

text \<open>
  A compiled matcher \<open>new Minimatch(pattern)\<close> is determined by its pattern.
\<close>

datatype Minimatch = Minimatch string

text \<open>
  \<open>request.authInfo\<close>, with the fields the middleware assigns (its declaration is
  not among the sources). Every field but \<open>access\<close> is optional; \<open>apiKey\<close> is
  absent, \<open>null\<close> (\<open>Some None\<close>) or a record.
\<close>

record AuthInfo =
  access :: Access
  type :: "string option"
  accessKey :: "string option"
  apiKey :: "Apikey option option"
  settings :: "json option"
  match :: "(string \<Rightarrow> bool) option"

text \<open>
  The part of the Express request the middleware reads: \<open>request.authInfo\<close>,
  \<open>request.query.accessKey\<close> (a string, or some other parsed query value),
  \<open>request.header("Authorization")\<close> and \<open>request.path\<close>.
\<close>

datatype QueryValue = QString string | QOther

record Request =
  authInfo :: "AuthInfo option"
  query_accessKey :: "QueryValue option"
  header_Authorization :: "string option"
  path :: string

record Response =
  status :: nat
  headers :: "(string \<times> string) list"
  body :: string

text \<open>
  What the call \<open>fetch(imaApiUrl + "apikeys/details")\<close> followed by
  \<open>detailsResponse.json()\<close> can do: the \<open>fetch\<close> promise rejects (a transport
  failure), the response is not \<open>ok\<close>, the body of an \<open>ok\<close> response is not JSON
  (\<open>json()\<close> rejects), or the body is read; a falsy body is \<open>None\<close>.
\<close>

datatype FetchResult =
    FetchRejected
  | NotOk
  | JsonRejected
  | OkBody "Apikey option"

text \<open>
  \<open>memoryCache\<close>: a miss is \<open>None\<close> (\<open>undefined\<close>), a cached \<open>null\<close> is
  \<open>Some None\<close>. Expiry and eviction belong to the cache library; the map is the
  cache's content at the time of the request.
\<close>

type_synonym Cache = "string \<rightharpoonup> Apikey option"

text \<open>
  The module constants read from the environment, and the library functions the
  module calls: \<open>new Minimatch(p).match(path, true)\<close>, \<open>new Minimatch(p).hasMagic()\<close>,
  \<open>JSON.parse\<close> (\<open>None\<close> when it throws) and
  \<open>Buffer.from(s, "base64").toString("utf-8")\<close>. The two Minimatch functions are
  methods of a matcher that was constructed; \<open>newMinimatch\<close> below is the constructor.
\<close>

record Env =
  serviceApiKey :: string
  resourceIamId :: string
  mmMatch :: "Minimatch \<Rightarrow> string \<Rightarrow> bool"
  hasMagic :: "Minimatch \<Rightarrow> bool"
  JSON_parse :: "string \<Rightarrow> json option"
  base64_utf8 :: "string \<Rightarrow> string"

text \<open>How a run of the middleware ends.\<close>

datatype Outcome = Next | Sent Response | Thrown

section \<open>JavaScript primitives\<close>

definition startsWith :: "string \<Rightarrow> string \<Rightarrow> bool" where
  "startsWith s p = (take (length p) s = p)"

fun indexOf :: "string \<Rightarrow> char \<Rightarrow> int" where
  "indexOf [] c = - 1"
| "indexOf (x # xs) c =
     (if x = c then 0
      else (let p = indexOf xs c in if p < 0 then - 1 else p + 1))"

definition substring :: "string \<Rightarrow> int \<Rightarrow> string" where
  "substring s n = drop (nat n) s"

fun truthy :: "json \<Rightarrow> bool" where
  "truthy JNull = False"
| "truthy (JBool b) = b"
| "truthy (JNum n) = (n \<noteq> 0)"
| "truthy (JStr s) = (s \<noteq> [])"
| "truthy (JArr xs) = True"
| "truthy (JObj kvs) = True"

text \<open>
  \<open>settings.access\<close>, \<open>settings.include\<close>, \<open>settings.exclude\<close>: an own member of an
  object, \<open>undefined\<close> (\<open>None\<close>) on every other value; none of the three names is
  inherited from a prototype.
\<close>

fun getProp :: "json \<Rightarrow> string \<Rightarrow> json option" where
  "getProp (JObj kvs) k = map_of kvs k"
| "getProp _ k = None"

fun isString :: "json \<Rightarrow> bool" where
  "isString (JStr s) = True"
| "isString _ = False"

fun stringOf :: "json \<Rightarrow> string" where
  "stringOf (JStr s) = s"
| "stringOf _ = []"

text \<open>
  \<open>new Minimatch(pattern)\<close>. The constructor of the library throws a \<open>TypeError\<close>
  (pattern is too long) for a pattern of more than \<open>1024 * 64\<close> characters; \<open>None\<close> is
  that exception.
\<close>

definition MAX_PATTERN_LENGTH :: nat where
  "MAX_PATTERN_LENGTH = 1024 * 64"

definition newMinimatch :: "string \<Rightarrow> Minimatch option" where
  "newMinimatch s =
     (if length s > MAX_PATTERN_LENGTH then None else Some (Minimatch s))"

section \<open>The exported functions\<close>

text \<open>
  \<open>validpath(path: string|null|undefined)\<close>. The conjunction is evaluated from the
  left, so the matcher is constructed only for a string that passed the four tests
  before it; \<open>None\<close> is the exception of the constructor.
\<close>

datatype PathArg = Null | Undefined | Str string

definition validpath :: "Env \<Rightarrow> PathArg \<Rightarrow> bool option" where
  "validpath env p =
     (case p of
        Null \<Rightarrow> Some False
      | Undefined \<Rightarrow> Some False
      | Str s \<Rightarrow>
          if s = [] then Some False
          else if s = ''api'' then Some False
          else if s = ''README'' then Some False
          else if startsWith s ''api/'' then Some False
          else (case newMinimatch s of
                  None \<Rightarrow> None
                | Some m \<Rightarrow> if hasMagic env m then Some False else Some True))"

definition unauthorized :: Response where
  "unauthorized =
     \<lparr>status = 401, headers = [(''WWW-Authenticate'', ''Basic'')], body = ''Unauthorized''\<rparr>"

definition forbidden :: Response where
  "forbidden = \<lparr>status = 403, headers = [], body = ''Forbidden''\<rparr>"

section \<open>The middleware\<close>

text \<open>
  Lines 70 to 108: the value of \<open>authInfo.type\<close> and of the variable \<open>accessKey\<close>
  (\<open>None\<close> where the code leaves the block with \<open>break Check\<close>).
\<close>

definition extractAccessKey :: "Env \<Rightarrow> Request \<Rightarrow> string \<times> string option" where
  "extractAccessKey env request =
     (case query_accessKey request of
        Some (QString s) \<Rightarrow> (''accessKey'', Some s)
      | _ \<Rightarrow>
         (case header_Authorization request of
            None \<Rightarrow> (''authHeader'', None)
          | Some header \<Rightarrow>
              if header = [] then (''authHeader'', None)
              else if startsWith header ''Bearer '' then
                (''authHeader'', Some (substring header (int (length ''Bearer ''))))
              else if startsWith header ''Basic '' then
                (let accessKey = base64_utf8 env (substring header (int (length ''Basic '')));
                     p = indexOf accessKey CHR '':''
                 in (''authHeader'',
                     Some (if p \<ge> 0 then substring accessKey (p + 1) else accessKey)))
              else (''authHeader'', None)))"

text \<open>
  Lines 117 to 142: the cache lookup, and on a miss the provider call and the
  cache write. \<open>None\<close> is an exception leaving the middleware: nothing was written.
\<close>

definition lookupApiKey ::
  "(string \<Rightarrow> FetchResult) \<Rightarrow> Cache \<Rightarrow> string \<Rightarrow> (Apikey option \<times> Cache) option" where
  "lookupApiKey fetch cache key =
     (case cache key of
        Some v \<Rightarrow> Some (v, cache)
      | None \<Rightarrow>
         (case fetch key of
            FetchRejected \<Rightarrow> None
          | NotOk \<Rightarrow> Some (None, cache(key \<mapsto> None))
          | JsonRejected \<Rightarrow> None
          | OkBody b \<Rightarrow> Some (b, cache(key \<mapsto> b))))"

text \<open>Lines 156 to 166: \<open>None\<close> when \<open>authInfo.settings\<close> is not assigned.\<close>

definition parseSettings :: "Env \<Rightarrow> Apikey \<Rightarrow> json option" where
  "parseSettings env rec =
     (case description rec of
        None \<Rightarrow> None
      | Some d \<Rightarrow> if d = [] then None else JSON_parse env d)"

text \<open>The variable \<open>settings\<close> after line 166: \<open>null\<close> unless the parse succeeded.\<close>

definition settingsOf :: "Env \<Rightarrow> Apikey \<Rightarrow> json" where
  "settingsOf env rec = (case parseSettings env rec of None \<Rightarrow> JNull | Some j \<Rightarrow> j)"

text \<open>Line 168: \<open>owner ? "write" : settings?.access ?? "read"\<close>.\<close>

definition requestedAccess :: "bool \<Rightarrow> json \<Rightarrow> json" where
  "requestedAccess owner stg =
     (if owner then JStr ''write''
      else (case getProp stg ''access'' of
              None \<Rightarrow> JStr ''read''
            | Some JNull \<Rightarrow> JStr ''read''
            | Some v \<Rightarrow> v))"

text \<open>
  Lines 175 to 189: the two lists of matchers. \<open>None\<close> when a constructor throws; both
  lists are built for the owner too.
\<close>

definition includeMatches :: "json \<Rightarrow> Minimatch list option" where
  "includeMatches stg =
     (if \<not> truthy stg then Some []
      else (case getProp stg ''include'' of
              Some (JStr s) \<Rightarrow> those [newMinimatch s]
            | Some (JArr items) \<Rightarrow>
                those (map (\<lambda>item. newMinimatch (stringOf item)) (filter isString items))
            | _ \<Rightarrow> Some []))"

definition excludeMatches :: "json \<Rightarrow> Minimatch list option" where
  "excludeMatches stg =
     (if \<not> truthy stg then Some []
      else (case getProp stg ''exclude'' of
              Some (JStr s) \<Rightarrow> those [newMinimatch s]
            | Some (JArr items) \<Rightarrow>
                those (map (\<lambda>item. newMinimatch (stringOf item)) (filter isString items))
            | _ \<Rightarrow> Some []))"

text \<open>
  Lines 191 to 195. The arrow function given to \<open>includeMatches.some\<close> extends to the
  last closing parenthesis, so its body is
  \<open>match.match(path, true) && !excludeMatches.length || !excludeMatches.some(...)\<close>.
\<close>

definition compileMatch ::
  "Env \<Rightarrow> bool \<Rightarrow> Minimatch list \<Rightarrow> Minimatch list \<Rightarrow> string \<Rightarrow> bool" where
  "compileMatch env owner incl excl =
     (if owner \<or> (incl = [] \<and> excl = []) then (\<lambda>p. True)
      else (\<lambda>p.
        incl = [] \<or>
        list_ex (\<lambda>m. (mmMatch env m p \<and> excl = []) \<or>
                      \<not> list_ex (\<lambda>m. mmMatch env m p) excl) incl))"

text \<open>Lines 204 to 211, from the initial \<open>access: "none"\<close>.\<close>

definition finalAccess :: "MinAccess \<Rightarrow> bool \<Rightarrow> json \<Rightarrow> Access" where
  "finalAccess minAccess owner acc =
     (if minAccess = MinOwner \<and> \<not> owner then AccessNone
      else if acc = JStr ''write'' then AccessWrite
      else if acc = JStr ''read'' \<and> minAccess = MinRead then AccessRead
      else AccessNone)"

text \<open>
  Lines 154 to 211, for a record that passed the test of line 148: whether an
  exception (of a Minimatch constructor) left the block, and the \<open>AuthInfo\<close> at
  that point.
\<close>

definition decide ::
  "Env \<Rightarrow> MinAccess \<Rightarrow> Request \<Rightarrow> bool \<Rightarrow> Apikey \<Rightarrow> AuthInfo \<Rightarrow> bool \<times> AuthInfo" where
  "decide env minAccess request owner rec ai =
     (let parsed = parseSettings env rec;
          stg = settingsOf env rec;
          ai1 = (case parsed of None \<Rightarrow> ai | Some j \<Rightarrow> ai\<lparr>settings := Some j\<rparr>);
          acc = requestedAccess owner stg
      in if acc \<noteq> JStr ''read'' \<and> acc \<noteq> JStr ''write'' then (False, ai1)
         else
           (case includeMatches stg of
              None \<Rightarrow> (True, ai1)
            | Some incl \<Rightarrow>
               (case excludeMatches stg of
                  None \<Rightarrow> (True, ai1)
                | Some excl \<Rightarrow>
                   (let m = compileMatch env owner incl excl;
                        ai2 = ai1\<lparr>match := Some m\<rparr>
                    in if \<not> m (substring (path request) 1) then (False, ai2)
                       else (False, ai2\<lparr>access := finalAccess minAccess owner acc\<rparr>)))))"

text \<open>
  The block labelled \<open>Check\<close> (lines 68 to 211) on a request without
  \<open>authInfo\<close>: whether an exception left it, the \<open>AuthInfo\<close> stored on the request,
  and the cache.
\<close>

definition Check ::
  "Env \<Rightarrow> MinAccess \<Rightarrow> (string \<Rightarrow> FetchResult) \<Rightarrow> Cache \<Rightarrow> Request \<Rightarrow> bool \<times> AuthInfo \<times> Cache" where
  "Check env minAccess fetch cache request =
     (let ai0 = \<lparr>access = AccessNone, type = None, accessKey = None, apiKey = None,
                 settings = None, match = None\<rparr>
      in case extractAccessKey env request of
        (ty, None) \<Rightarrow> (False, ai0\<lparr>type := Some ty\<rparr>, cache)
      | (ty, Some key) \<Rightarrow>
          if key = [] then (False, ai0\<lparr>type := Some ty\<rparr>, cache)
          else
            (let ai1 = ai0\<lparr>type := Some ty, accessKey := Some key\<rparr>
             in case lookupApiKey fetch cache key of
               None \<Rightarrow> (True, ai1, cache)
             | Some (k, cache') \<Rightarrow>
                 (let ai2 = ai1\<lparr>apiKey := Some k\<rparr>;
                      owner = (key = serviceApiKey env)
                  in case k of
                    None \<Rightarrow> (False, ai2, cache')
                  | Some rec \<Rightarrow>
                      if locked rec \<or> disabled rec \<or>
                         (\<not> owner \<and> iam_id rec \<noteq> resourceIamId env)
                      then (False, ai2, cache')
                      else (case decide env minAccess request owner rec ai2 of
                              (thrown, ai3) \<Rightarrow> (thrown, ai3, cache')))))"

text \<open>Lines 214 to 228.\<close>

definition respond :: "bool \<Rightarrow> AuthInfo \<Rightarrow> Outcome" where
  "respond allowUnauthorized ai =
     (if access ai = AccessNone \<and> \<not> allowUnauthorized then
        (case accessKey ai of
           None \<Rightarrow> Sent unauthorized
         | Some k \<Rightarrow> if k \<noteq> [] then Sent forbidden else Sent unauthorized)
      else Next)"

text \<open>
  The middleware returned by \<open>authorize(minAccess, allowUnauthorized)\<close>: the outcome,
  the request with its \<open>authInfo\<close>, and the cache.
\<close>

definition authorize ::
  "Env \<Rightarrow> MinAccess \<Rightarrow> bool \<Rightarrow> (string \<Rightarrow> FetchResult) \<Rightarrow> Cache \<Rightarrow> Request
     \<Rightarrow> Outcome \<times> Request \<times> Cache" where
  "authorize env minAccess allowUnauthorized fetch cache request =
     (case authInfo request of
        Some ai \<Rightarrow> (respond allowUnauthorized ai, request, cache)
      | None \<Rightarrow>
          (case Check env minAccess fetch cache request of
             (True, ai, cache') \<Rightarrow> (Thrown, request\<lparr>authInfo := Some ai\<rparr>, cache')
           | (False, ai, cache') \<Rightarrow>
               (respond allowUnauthorized ai, request\<lparr>authInfo := Some ai\<rparr>, cache')))"

text \<open>The three parts of a run's result.\<close>

definition outcome :: "Outcome \<times> Request \<times> Cache \<Rightarrow> Outcome" where
  "outcome r = fst r"

definition authInfoAfter :: "Outcome \<times> Request \<times> Cache \<Rightarrow> AuthInfo option" where
  "authInfoAfter r = authInfo (fst (snd r))"

definition cacheAfter :: "Outcome \<times> Request \<times> Cache \<Rightarrow> Cache" where
  "cacheAfter r = snd (snd r)"

section \<open>An instance of the library parameters\<close>

text \<open>
  Minimatch, \<open>JSON.parse\<close> and the base64 decoder are libraries, so the theorems
  below hold for every \<open>Env\<close>. To run the model on concrete requests, \<open>exampleEnv\<close>
  fixes one: \<open>globMatch\<close> follows Minimatch's \<open>match(path, true)\<close> on patterns
  made of literal characters, \<open>?\<close> and \<open>*\<close>, matched segment by segment
  between single slashes. A \<open>*\<close> or \<open>?\<close> at the start of a segment does not
  match a leading dot, a segment \<open>*\<close> does not match the empty segment, and with
  the partial flag a path that ends before the pattern does is a match.
\<close>

fun splitOn :: "char \<Rightarrow> string \<Rightarrow> string list" where
  "splitOn c [] = [] # []"
| "splitOn c (x # xs) =
     (if x = c then [] # splitOn c xs
      else (case splitOn c xs of [] \<Rightarrow> [x] # [] | s # ss \<Rightarrow> (x # s) # ss))"

fun wild :: "string \<Rightarrow> string \<Rightarrow> bool" where
  "wild [] [] = True"
| "wild [] (c # cs) = False"
| "wild (p # ps) [] = (p = CHR ''*'' \<and> wild ps [])"
| "wild (p # ps) (c # cs) =
     (if p = CHR ''*'' then wild ps (c # cs) \<or> wild (p # ps) cs
      else (p = CHR ''?'' \<or> p = c) \<and> wild ps cs)"

definition segMatch :: "string \<Rightarrow> string \<Rightarrow> bool" where
  "segMatch pat seg =
     (if pat = ''*'' then seg \<noteq> [] \<and> hd seg \<noteq> CHR ''.''
      else if pat \<noteq> [] \<and> (hd pat = CHR ''*'' \<or> hd pat = CHR ''?'') \<and>
              seg \<noteq> [] \<and> hd seg = CHR ''.'' then False
      else wild pat seg)"

fun matchOne :: "string list \<Rightarrow> string list \<Rightarrow> bool" where
  "matchOne [] [] = True"
| "matchOne [] (p # ps) = True"
| "matchOne (f # fs) [] = (fs = [] \<and> f = [])"
| "matchOne (f # fs) (p # ps) = (segMatch p f \<and> matchOne fs ps)"

fun globMatch :: "Minimatch \<Rightarrow> string \<Rightarrow> bool" where
  "globMatch (Minimatch pat) f =
     (if pat = [] then f = []
      else if f = ''/'' then True
      else matchOne (splitOn CHR ''/'' f) (splitOn CHR ''/'' pat))"

fun globMagic :: "Minimatch \<Rightarrow> bool" where
  "globMagic (Minimatch s) = (CHR ''*'' \<in> set s \<or> CHR ''?'' \<in> set s)"

text \<open>
  The descriptions and the Basic credential the examples use, as \<open>JSON.parse\<close> and
  the decoder read them; every other description is taken not to be JSON.
\<close>

definition scopedSettings :: json where
  "scopedSettings =
     JObj [(''include'', JArr [JStr ''a/*'']), (''exclude'', JArr [JStr ''a/secret/*''])]"

definition scopedDescription :: string where
  \<open>scopedDescription = ''{"include":["a/*"],"exclude":["a/secret/*"]}''\<close>

definition writeDescription :: string where
  \<open>writeDescription = ''{"access":"write"}''\<close>

definition exampleParse :: "string \<Rightarrow> json option" where
  "exampleParse d =
     (if d = scopedDescription then Some scopedSettings
      else if d = writeDescription then Some (JObj [(''access'', JStr ''write'')])
      else None)"

definition exampleDecode :: "string \<Rightarrow> string" where
  "exampleDecode s = (if s = ''YXBpa2V5OmsxMjM='' then ''apikey:k123'' else [])"

definition exampleEnv :: Env where
  "exampleEnv =
     \<lparr>serviceApiKey = ''service-key'', resourceIamId = ''iam-owner'',
      mmMatch = globMatch, hasMagic = globMagic,
      JSON_parse = exampleParse, base64_utf8 = exampleDecode\<rparr>"

text \<open>Requests, records, caches and provider answers for the examples.\<close>

definition queryRequest :: "string \<Rightarrow> string \<Rightarrow> Request" where
  "queryRequest key p =
     \<lparr>authInfo = None, query_accessKey = Some (QString key),
      header_Authorization = None, path = p\<rparr>"

definition bareRequest :: "string \<Rightarrow> Request" where
  "bareRequest p =
     \<lparr>authInfo = None, query_accessKey = None, header_Authorization = None, path = p\<rparr>"

definition keyRecord :: "string \<Rightarrow> string option \<Rightarrow> Apikey" where
  "keyRecord owner d = \<lparr>iam_id = owner, locked = False, disabled = False, description = d\<rparr>"

definition emptyCache :: Cache where
  "emptyCache k = None"

definition unreachable :: "string \<Rightarrow> FetchResult" where
  "unreachable k = FetchRejected"

definition rejecting :: "string \<Rightarrow> FetchResult" where
  "rejecting k = NotOk"

definition answering :: "Apikey \<Rightarrow> string \<Rightarrow> FetchResult" where
  "answering rec k = OkBody (Some rec)"

definition storedInfo :: "Access \<Rightarrow> AuthInfo" where
  "storedInfo a =
     \<lparr>access = a, type = Some ''accessKey'', accessKey = Some ''k123'',
      apiKey = Some (Some (keyRecord ''iam-owner'' None)), settings = None,
      match = Some (compileMatch exampleEnv False [] [])\<rparr>"

definition reusedRequest :: "Access \<Rightarrow> string \<Rightarrow> Request" where
  "reusedRequest a p =
     \<lparr>authInfo = Some (storedInfo a), query_accessKey = Some (QString ''k123''),
      header_Authorization = None, path = p\<rparr>"

definition readerRecord :: Apikey where
  "readerRecord = keyRecord ''iam-owner'' None"

definition brokenRecord :: Apikey where
  "brokenRecord = keyRecord ''iam-owner'' (Some ''{not json'')"

definition foreignRecord :: Apikey where
  "foreignRecord = keyRecord ''someone-else'' None"

definition writerRecord :: Apikey where
  "writerRecord = keyRecord ''iam-owner'' (Some writeDescription)"

definition basicRequest :: "string \<Rightarrow> Request" where
  "basicRequest p =
     \<lparr>authInfo = None, query_accessKey = None,
      header_Authorization = Some ''Basic YXBpa2V5OmsxMjM='', path = p\<rparr>"

definition scopedRecord :: Apikey where
  "scopedRecord = keyRecord ''someone-else'' (Some scopedDescription)"

definition longPath :: string where
  "longPath = replicate 65537 CHR ''x''"

section \<open>Steps of the middleware\<close>

text \<open>
  \<open>startsWith\<close> is the prefix order on strings. The lemmas after it follow the block
  \<open>Check\<close> along each of its exits.
\<close>

lemma startsWith_prefix: "startsWith s p = prefix p s"
  unfolding startsWith_def prefix_def
  by (metis append_eq_conv_conj append_take_drop_id)

lemma Check_no_key:
  assumes "snd (extractAccessKey env request) = None \<or> snd (extractAccessKey env request) = Some []"
  shows "\<exists>ai. Check env minAccess fetch cache request = (False, ai, cache) \<and>
           access ai = AccessNone \<and> accessKey ai = None"
  using assms by (cases "extractAccessKey env request") (auto simp: Check_def)

lemma Check_thrown:
  assumes "extractAccessKey env request = (ty, Some key)" "key \<noteq> []"
    and "lookupApiKey fetch cache key = None"
  shows "\<exists>ai. Check env minAccess fetch cache request = (True, ai, cache)"
  using assms by (simp add: Check_def)

lemma Check_rejected:
  assumes "extractAccessKey env request = (ty, Some key)" "key \<noteq> []"
    and "lookupApiKey fetch cache key = Some (v, cache')"
    and "v = None \<or> (\<exists>rec. v = Some rec \<and> (locked rec \<or> disabled rec \<or>
           (key \<noteq> serviceApiKey env \<and> iam_id rec \<noteq> resourceIamId env)))"
  shows "\<exists>ai. Check env minAccess fetch cache request = (False, ai, cache') \<and>
           access ai = AccessNone \<and> accessKey ai = Some key \<and> apiKey ai = Some v \<and> match ai = None"
  using assms by (auto simp: Check_def)


lemma Check_accepted:
  assumes "extractAccessKey env request = (ty, Some key)" "key \<noteq> []"
    and "lookupApiKey fetch cache key = Some (Some rec, cache')"
    and "\<not> locked rec" "\<not> disabled rec"
    and "key = serviceApiKey env \<or> iam_id rec = resourceIamId env"
  shows "Check env minAccess fetch cache request =
           (fst (decide env minAccess request (key = serviceApiKey env) rec
              \<lparr>access = AccessNone, type = Some ty, accessKey = Some key,
               apiKey = Some (Some rec), settings = None, match = None\<rparr>),
            snd (decide env minAccess request (key = serviceApiKey env) rec
              \<lparr>access = AccessNone, type = Some ty, accessKey = Some key,
               apiKey = Some (Some rec), settings = None, match = None\<rparr>),
            cache')"
  using assms by (auto simp: Check_def split: prod.split)

lemma authorize_fresh:
  assumes "authInfo request = None"
    and "Check env minAccess fetch cache request = (False, ai, cache')"
  shows "authorize env minAccess allow fetch cache request =
           (respond allow ai, request\<lparr>authInfo := Some ai\<rparr>, cache')"
  using assms by (simp add: authorize_def)

lemma authorize_thrown:
  assumes "authInfo request = None"
    and "Check env minAccess fetch cache request = (True, ai, cache')"
  shows "authorize env minAccess allow fetch cache request =
           (Thrown, request\<lparr>authInfo := Some ai\<rparr>, cache')"
  using assms by (simp add: authorize_def)

lemma decide_owner:
  assumes "includeMatches (settingsOf env rec) = Some incl"
    and "excludeMatches (settingsOf env rec) = Some excl"
  shows "fst (decide env minAccess request True rec ai) = False"
    and "\<exists>m. match (snd (decide env minAccess request True rec ai)) = Some m \<and> (\<forall>p. m p) \<and>
           access (snd (decide env minAccess request True rec ai)) = AccessWrite"
  using assms
  by (simp_all add: decide_def Let_def requestedAccess_def compileMatch_def finalAccess_def
        split: option.split)

lemma decide_owner_throws:
  assumes "includeMatches (settingsOf env rec) = None \<or> excludeMatches (settingsOf env rec) = None"
  shows "fst (decide env minAccess request True rec ai) = True"
  using assms
  by (auto simp: decide_def Let_def requestedAccess_def split: option.split)

lemma decide_matched:
  assumes "requestedAccess False (settingsOf env rec) = JStr r"
    and "r = ''read'' \<or> r = ''write''"
    and "includeMatches (settingsOf env rec) = Some incl"
    and "excludeMatches (settingsOf env rec) = Some excl"
    and "compileMatch env False incl excl (substring (path request) 1)"
  shows "fst (decide env minAccess request False rec ai) = False"
    and "access (snd (decide env minAccess request False rec ai)) =
           finalAccess minAccess False (JStr r)"
    and "accessKey (snd (decide env minAccess request False rec ai)) = accessKey ai"
  using assms by (auto simp: decide_def Let_def split: option.split)

lemma decide_no_settings:
  assumes "parseSettings env rec = None"
  shows "fst (decide env minAccess request False rec ai) = False"
    and "settings (snd (decide env minAccess request False rec ai)) = settings ai"
    and "\<exists>m. match (snd (decide env minAccess request False rec ai)) = Some m \<and> (\<forall>p. m p)"
    and "access (snd (decide env minAccess request False rec ai)) =
           finalAccess minAccess False (JStr ''read'')"
  using assms
  by (simp_all add: decide_def Let_def settingsOf_def requestedAccess_def includeMatches_def
        excludeMatches_def compileMatch_def)

lemma scoped_matchers:
  "includeMatches scopedSettings = Some [Minimatch ''a/*'']"
  "excludeMatches scopedSettings = Some [Minimatch ''a/secret/*'']"
  by (simp_all add: includeMatches_def excludeMatches_def scopedSettings_def newMinimatch_def
        MAX_PATTERN_LENGTH_def)

lemma longPath_chars: "set longPath = {CHR ''x''}"
  by (simp add: longPath_def)

lemma longPath_plain:
  "longPath \<noteq> []" "longPath \<noteq> ''api''" "longPath \<noteq> ''README''" "\<not> prefix ''api/'' longPath"
proof -
  have no_p: "CHR ''p'' \<notin> set longPath"
    by (simp add: longPath_chars)
  have no_R: "CHR ''R'' \<notin> set longPath"
    by (simp add: longPath_chars)
  have some_x: "CHR ''x'' \<in> set longPath"
    by (simp add: longPath_chars)
  show "longPath \<noteq> []"
  proof
    assume "longPath = []"
    then have "set longPath = set []" by (rule arg_cong)
    with some_x show False by simp
  qed
  show "longPath \<noteq> ''api''"
  proof
    assume "longPath = ''api''"
    then have "set longPath = set ''api''" by (rule arg_cong)
    with no_p show False by simp
  qed
  show "longPath \<noteq> ''README''"
  proof
    assume "longPath = ''README''"
    then have "set longPath = set ''README''" by (rule arg_cong)
    with no_R show False by simp
  qed
  show "\<not> prefix ''api/'' longPath"
  proof
    assume "prefix ''api/'' longPath"
    then have "set ''api/'' \<subseteq> set longPath" by (rule set_mono_prefix)
    then have "CHR ''p'' \<in> set longPath" by simp
    with no_p show False by simp
  qed
qed

section \<open>The claims\<close>

text \<open>
  Claim C1, on the code. For a credential that is not the owner and whose settings are
  include \<open>["a/*"]\<close> and exclude \<open>["a/secret/*"]\<close>, both matchers are built and the
  compiled function allows \<open>a/file\<close> and denies \<open>a/secret/file\<close>, as the claim says, but
  it allows \<open>b/file\<close>, which the claim denies: the test on the excludes sits inside the
  function given to \<open>includeMatches.some\<close>, so a path that no exclude matches is allowed
  whether or not an include matches it. The hypotheses say what Minimatch answers for
  the exclude pattern on the three paths.
\<close>

theorem C1_scoped_paths:
  assumes "\<not> mmMatch env (Minimatch ''a/secret/*'') ''a/file''"
    and "mmMatch env (Minimatch ''a/secret/*'') ''a/secret/file''"
    and "\<not> mmMatch env (Minimatch ''a/secret/*'') ''b/file''"
  shows "includeMatches scopedSettings = Some [Minimatch ''a/*''] \<and>
         excludeMatches scopedSettings = Some [Minimatch ''a/secret/*''] \<and>
         compileMatch env False [Minimatch ''a/*''] [Minimatch ''a/secret/*''] ''a/file'' \<and>
         \<not> compileMatch env False [Minimatch ''a/*''] [Minimatch ''a/secret/*''] ''a/secret/file'' \<and>
         compileMatch env False [Minimatch ''a/*''] [Minimatch ''a/secret/*''] ''b/file''"
  using assms by (simp add: compileMatch_def scoped_matchers)

text \<open>The hypotheses of C1 hold for the example matcher, which matches \<open>b/file\<close> against neither pattern.\<close>

theorem C1_scoped_paths_witness:
  "\<not> mmMatch exampleEnv (Minimatch ''a/secret/*'') ''a/file'' \<and>
   mmMatch exampleEnv (Minimatch ''a/secret/*'') ''a/secret/file'' \<and>
   \<not> mmMatch exampleEnv (Minimatch ''a/secret/*'') ''b/file'' \<and>
   \<not> mmMatch exampleEnv (Minimatch ''a/*'') ''b/file'' \<and>
   compileMatch exampleEnv False [Minimatch ''a/*''] [Minimatch ''a/secret/*''] ''b/file''"
proof -
  have h1: "\<not> mmMatch exampleEnv (Minimatch ''a/secret/*'') ''a/file''"
    by (simp add: exampleEnv_def segMatch_def)
  have h2: "mmMatch exampleEnv (Minimatch ''a/secret/*'') ''a/secret/file''"
    by (simp add: exampleEnv_def segMatch_def)
  have h3: "\<not> mmMatch exampleEnv (Minimatch ''a/secret/*'') ''b/file''"
    by (simp add: exampleEnv_def segMatch_def)
  have h4: "\<not> mmMatch exampleEnv (Minimatch ''a/*'') ''b/file''"
    by (simp add: exampleEnv_def segMatch_def)
  from C1_scoped_paths [OF h1 h2 h3] h1 h2 h3 h4 show ?thesis by simp
qed

text \<open>
  Claim C2, as amended. When the request already carries an \<open>AuthInfo\<close>, the middleware
  compares nothing with its \<open>minAccess\<close>: the stored \<open>AuthInfo\<close> and the cache are left
  as they are, and the next handler is called exactly when the stored access is not
  \<open>none\<close> or \<open>allowUnauthorized\<close> is set. So for \<open>minAccess = "owner"\<close> a stored access
  \<open>read\<close> or \<open>write\<close> passes.
\<close>

theorem C2_reuse_skips_comparison:
  assumes "authInfo request = Some ai"
  shows "authInfoAfter (authorize env minAccess allow fetch cache request) = Some ai \<and>
         cacheAfter (authorize env minAccess allow fetch cache request) = cache \<and>
         (outcome (authorize env minAccess allow fetch cache request) = Next) =
           (access ai \<noteq> AccessNone \<or> allow)"
  using assms
  by (auto simp: authorize_def authInfoAfter_def cacheAfter_def outcome_def respond_def
        split: option.split)

text \<open>C2 at a request whose stored access is \<open>write\<close>, under \<open>minAccess = "owner"\<close>.\<close>

theorem C2_reuse_skips_comparison_witness:
  "authInfo (reusedRequest AccessWrite ''/a/file'') = Some (storedInfo AccessWrite) \<and>
   outcome (authorize exampleEnv MinOwner False rejecting emptyCache
              (reusedRequest AccessWrite ''/a/file'')) = Next"
proof -
  have h: "authInfo (reusedRequest AccessWrite ''/a/file'') = Some (storedInfo AccessWrite)"
    by (simp add: reusedRequest_def)
  from C2_reuse_skips_comparison [OF h, of exampleEnv MinOwner False rejecting emptyCache] h
  show ?thesis by (simp add: storedInfo_def)
qed

text \<open>
  Claim C2 as stated fails: with \<open>minAccess = "owner"\<close> and a stored \<open>AuthInfo\<close> of a
  credential that is not the owner, with access \<open>read\<close>, the next handler is called and
  the access stays \<open>read\<close>.
\<close>

theorem C2_owner_check_bypassed_counterexample:
  "outcome (authorize exampleEnv MinOwner False rejecting emptyCache
              (reusedRequest AccessRead ''/a/file'')) = Next \<and>
   map_option access (authInfoAfter (authorize exampleEnv MinOwner False rejecting emptyCache
              (reusedRequest AccessRead ''/a/file''))) = Some AccessRead"
  by (simp add: authorize_def reusedRequest_def storedInfo_def respond_def outcome_def
        authInfoAfter_def)

text \<open>
  Claim C3. For a credential that is not the owner, whose settings give at least one
  include matcher and at least one exclude matcher: when no exclude matcher matches the
  path, the compiled function returns true. Nothing is asked of the include matchers.
\<close>

theorem C3_literal_short_circuit:
  assumes "includeMatches stg = Some incl"
    and "excludeMatches stg = Some excl"
    and "incl \<noteq> []"
    and "excl \<noteq> []"
    and "\<not> list_ex (\<lambda>m. mmMatch env m p) excl"
  shows "compileMatch env False incl excl p"
  using assms by (cases incl) (simp_all add: compileMatch_def)

text \<open>C3 at the path \<open>b/file\<close>, which no include matcher and no exclude matcher matches.\<close>

theorem C3_literal_short_circuit_witness:
  "includeMatches scopedSettings = Some [Minimatch ''a/*''] \<and>
   excludeMatches scopedSettings = Some [Minimatch ''a/secret/*''] \<and>
   \<not> list_ex (\<lambda>m. mmMatch exampleEnv m ''b/file'') [Minimatch ''a/secret/*''] \<and>
   \<not> list_ex (\<lambda>m. mmMatch exampleEnv m ''b/file'') [Minimatch ''a/*''] \<and>
   compileMatch exampleEnv False [Minimatch ''a/*''] [Minimatch ''a/secret/*''] ''b/file''"
proof -
  have h1: "includeMatches scopedSettings = Some [Minimatch ''a/*'']"
    by (rule scoped_matchers(1))
  have h2: "excludeMatches scopedSettings = Some [Minimatch ''a/secret/*'']"
    by (rule scoped_matchers(2))
  have h3: "[Minimatch ''a/*''] \<noteq> []"
    by simp
  have h4: "[Minimatch ''a/secret/*''] \<noteq> []"
    by simp
  have h5: "\<not> list_ex (\<lambda>m. mmMatch exampleEnv m ''b/file'') [Minimatch ''a/secret/*'']"
    by (simp add: exampleEnv_def segMatch_def)
  have h6: "\<not> list_ex (\<lambda>m. mmMatch exampleEnv m ''b/file'') [Minimatch ''a/*'']"
    by (simp add: exampleEnv_def segMatch_def)
  from C3_literal_short_circuit [OF h1 h2 h3 h4 h5] h1 h2 h5 h6 show ?thesis by simp
qed

text \<open>
  Claim C4, as amended. For a request without \<open>AuthInfo\<close> presenting the service
  credential, with the verification result \<open>v\<close>. When the record was found, is not
  locked, is not disabled and both lists of matchers of its settings are built: whatever
  the settings and the record's \<open>iam_id\<close>, the requested access is \<open>write\<close>, the stored
  matcher accepts every path, the final access is \<open>write\<close> for every \<open>minAccess\<close> and the
  next handler is called. When a Minimatch constructor throws on a pattern of such a
  record, the exception leaves the middleware. When the result is \<open>null\<close> or the record
  is locked or disabled, the access is \<open>none\<close>, no matcher is stored, and the response is
  403 unless \<open>allowUnauthorized\<close> is set, in which case the next handler is called.
\<close>

theorem C4_service_credential_owner:
  assumes "authInfo request = None"
    and "extractAccessKey env request = (ty, Some key)"
    and "key \<noteq> []"
    and "key = serviceApiKey env"
    and "lookupApiKey fetch cache key = Some (v, cache')"
  shows "(\<forall>rec incl excl.
            v = Some rec \<and> \<not> locked rec \<and> \<not> disabled rec \<and>
            includeMatches (settingsOf env rec) = Some incl \<and>
            excludeMatches (settingsOf env rec) = Some excl \<longrightarrow>
              requestedAccess (key = serviceApiKey env) (settingsOf env rec) = JStr ''write'' \<and>
              (\<exists>ai m. authInfoAfter (authorize env minAccess allow fetch cache request) = Some ai \<and>
                      match ai = Some m \<and> (\<forall>p. m p) \<and> access ai = AccessWrite) \<and>
              outcome (authorize env minAccess allow fetch cache request) = Next) \<and>
         (\<forall>rec.
            v = Some rec \<and> \<not> locked rec \<and> \<not> disabled rec \<and>
            (includeMatches (settingsOf env rec) = None \<or>
             excludeMatches (settingsOf env rec) = None) \<longrightarrow>
              outcome (authorize env minAccess allow fetch cache request) = Thrown) \<and>
         (v = None \<or> (\<exists>rec. v = Some rec \<and> (locked rec \<or> disabled rec)) \<longrightarrow>
            (\<exists>ai. authInfoAfter (authorize env minAccess allow fetch cache request) = Some ai \<and>
                  access ai = AccessNone \<and> match ai = None) \<and>
            outcome (authorize env minAccess allow fetch cache request) =
              (if allow then Next else Sent forbidden) \<and>
            status forbidden = 403)"
proof (intro conjI allI impI)
  fix rec incl excl
  assume a: "v = Some rec \<and> \<not> locked rec \<and> \<not> disabled rec \<and>
            includeMatches (settingsOf env rec) = Some incl \<and>
            excludeMatches (settingsOf env rec) = Some excl"
  let ?start = "\<lparr>access = AccessNone, type = Some ty, accessKey = Some key,
                 apiKey = Some (Some rec), settings = None, match = None\<rparr>"
  let ?d = "decide env minAccess request True rec ?start"
  have l: "lookupApiKey fetch cache key = Some (Some rec, cache')"
    using assms(5) a by simp
  have inc: "includeMatches (settingsOf env rec) = Some incl"
    and exc: "excludeMatches (settingsOf env rec) = Some excl"
    using a by simp_all
  have "Check env minAccess fetch cache request = (fst ?d, snd ?d, cache')"
    using Check_accepted [OF assms(2,3) l, where minAccess = minAccess] a assms(4) by simp
  then have chk: "Check env minAccess fetch cache request = (False, snd ?d, cache')"
    using decide_owner(1) [OF inc exc, where minAccess = minAccess and request = request
        and ai = ?start] by simp
  have run: "authorize env minAccess allow fetch cache request =
               (respond allow (snd ?d), request\<lparr>authInfo := Some (snd ?d)\<rparr>, cache')"
    by (rule authorize_fresh [OF assms(1) chk])
  obtain m where m: "match (snd ?d) = Some m" "\<forall>p. m p" "access (snd ?d) = AccessWrite"
    using decide_owner(2) [OF inc exc, where minAccess = minAccess and request = request
        and ai = ?start] by blast
  show "requestedAccess (key = serviceApiKey env) (settingsOf env rec) = JStr ''write''"
    using assms(4) by (simp add: requestedAccess_def)
  show "\<exists>ai m. authInfoAfter (authorize env minAccess allow fetch cache request) = Some ai \<and>
          match ai = Some m \<and> (\<forall>p. m p) \<and> access ai = AccessWrite"
    using m by (simp add: run authInfoAfter_def)
  show "outcome (authorize env minAccess allow fetch cache request) = Next"
    using m(3) by (simp add: run outcome_def respond_def)
next
  fix rec
  assume a: "v = Some rec \<and> \<not> locked rec \<and> \<not> disabled rec \<and>
            (includeMatches (settingsOf env rec) = None \<or>
             excludeMatches (settingsOf env rec) = None)"
  let ?start = "\<lparr>access = AccessNone, type = Some ty, accessKey = Some key,
                 apiKey = Some (Some rec), settings = None, match = None\<rparr>"
  let ?d = "decide env minAccess request True rec ?start"
  have l: "lookupApiKey fetch cache key = Some (Some rec, cache')"
    using assms(5) a by simp
  have none: "includeMatches (settingsOf env rec) = None \<or>
              excludeMatches (settingsOf env rec) = None"
    using a by simp
  have "Check env minAccess fetch cache request = (fst ?d, snd ?d, cache')"
    using Check_accepted [OF assms(2,3) l, where minAccess = minAccess] a assms(4) by simp
  then have chk: "Check env minAccess fetch cache request = (True, snd ?d, cache')"
    using decide_owner_throws [OF none, where minAccess = minAccess and request = request
        and ai = ?start] by simp
  show "outcome (authorize env minAccess allow fetch cache request) = Thrown"
    by (simp add: authorize_thrown [OF assms(1) chk] outcome_def)
next
  assume a: "v = None \<or> (\<exists>rec. v = Some rec \<and> (locked rec \<or> disabled rec))"
  then have rej: "v = None \<or> (\<exists>rec. v = Some rec \<and> (locked rec \<or> disabled rec \<or>
           (key \<noteq> serviceApiKey env \<and> iam_id rec \<noteq> resourceIamId env)))"
    by blast
  obtain ai where chk: "Check env minAccess fetch cache request = (False, ai, cache')"
    and ai: "access ai = AccessNone" "accessKey ai = Some key" "match ai = None"
    using Check_rejected [OF assms(2,3,5) rej, where minAccess = minAccess] by blast
  have run: "authorize env minAccess allow fetch cache request =
               (respond allow ai, request\<lparr>authInfo := Some ai\<rparr>, cache')"
    by (rule authorize_fresh [OF assms(1) chk])
  have out: "outcome (authorize env minAccess allow fetch cache request) = respond allow ai"
    by (simp add: run outcome_def)
  show "\<exists>ai. authInfoAfter (authorize env minAccess allow fetch cache request) = Some ai \<and>
          access ai = AccessNone \<and> match ai = None"
    using ai by (simp add: run authInfoAfter_def)
  show "outcome (authorize env minAccess allow fetch cache request) =
          (if allow then Next else Sent forbidden)"
    unfolding out using ai assms(3) by (simp add: respond_def)
  show "status forbidden = 403"
    by (simp add: forbidden_def)
qed

text \<open>
  C4 at the service credential under \<open>minAccess = "owner"\<close>: with a record of another
  owner whose settings would exclude the requested path, and with a provider that
  answers with a failure status.
\<close>

theorem C4_service_credential_owner_witness:
  "authInfo (queryRequest ''service-key'' ''/a/secret/file'') = None \<and>
   extractAccessKey exampleEnv (queryRequest ''service-key'' ''/a/secret/file'') =
     (''accessKey'', Some ''service-key'') \<and>
   ''service-key'' = serviceApiKey exampleEnv \<and>
   lookupApiKey (answering scopedRecord) emptyCache ''service-key'' =
     Some (Some scopedRecord, emptyCache(''service-key'' \<mapsto> Some scopedRecord)) \<and>
   \<not> locked scopedRecord \<and> \<not> disabled scopedRecord \<and>
   iam_id scopedRecord \<noteq> resourceIamId exampleEnv \<and>
   includeMatches (settingsOf exampleEnv scopedRecord) = Some [Minimatch ''a/*''] \<and>
   excludeMatches (settingsOf exampleEnv scopedRecord) = Some [Minimatch ''a/secret/*''] \<and>
   outcome (authorize exampleEnv MinOwner False (answering scopedRecord) emptyCache
              (queryRequest ''service-key'' ''/a/secret/file'')) = Next \<and>
   lookupApiKey rejecting emptyCache ''service-key'' =
     Some (None, emptyCache(''service-key'' \<mapsto> None)) \<and>
   outcome (authorize exampleEnv MinOwner False rejecting emptyCache
              (queryRequest ''service-key'' ''/a/secret/file'')) = Sent forbidden"
proof -
  let ?rq = "queryRequest ''service-key'' ''/a/secret/file''"
  have h1: "authInfo ?rq = None"
    by (simp add: queryRequest_def)
  have h2: "extractAccessKey exampleEnv ?rq = (''accessKey'', Some ''service-key'')"
    by (simp add: extractAccessKey_def queryRequest_def)
  have h3: "''service-key'' \<noteq> []"
    by simp
  have h4: "''service-key'' = serviceApiKey exampleEnv"
    by (simp add: exampleEnv_def)
  have h5: "lookupApiKey (answering scopedRecord) emptyCache ''service-key'' =
              Some (Some scopedRecord, emptyCache(''service-key'' \<mapsto> Some scopedRecord))"
    by (simp add: lookupApiKey_def answering_def emptyCache_def)
  have h6: "\<not> locked scopedRecord"
    by (simp add: scopedRecord_def keyRecord_def)
  have h7: "\<not> disabled scopedRecord"
    by (simp add: scopedRecord_def keyRecord_def)
  have other: "iam_id scopedRecord \<noteq> resourceIamId exampleEnv"
    by (simp add: scopedRecord_def keyRecord_def exampleEnv_def)
  have stg: "settingsOf exampleEnv scopedRecord = scopedSettings"
    by (simp add: settingsOf_def parseSettings_def scopedRecord_def keyRecord_def exampleEnv_def
          exampleParse_def scopedDescription_def)
  have h8: "includeMatches (settingsOf exampleEnv scopedRecord) = Some [Minimatch ''a/*'']"
    by (simp add: stg scoped_matchers)
  have h9: "excludeMatches (settingsOf exampleEnv scopedRecord) = Some [Minimatch ''a/secret/*'']"
    by (simp add: stg scoped_matchers)
  have k5: "lookupApiKey rejecting emptyCache ''service-key'' =
              Some (None, emptyCache(''service-key'' \<mapsto> None))"
    by (simp add: lookupApiKey_def rejecting_def emptyCache_def)
  from C4_service_credential_owner [OF h1 h2 h3 h4 h5, of MinOwner False] h6 h7 h8 h9
  have a: "outcome (authorize exampleEnv MinOwner False (answering scopedRecord) emptyCache ?rq) = Next"
    by blast
  from C4_service_credential_owner [OF h1 h2 h3 h4 k5, of MinOwner False]
  have b: "outcome (authorize exampleEnv MinOwner False rejecting emptyCache ?rq) = Sent forbidden"
    by simp
  from h1 h2 h4 h5 h6 h7 other h8 h9 a k5 b show ?thesis by blast
qed

text \<open>
  Claim C4 as stated fails: the record is tested before the owner is used. With the
  service credential and a provider that answers with a failure status, the access is
  \<open>none\<close>, no matcher is stored and the response is 403.
\<close>

theorem C4_invalid_service_record_counterexample:
  "outcome (authorize exampleEnv MinRead False rejecting emptyCache
              (queryRequest ''service-key'' ''/a/file'')) = Sent forbidden \<and>
   map_option access (authInfoAfter (authorize exampleEnv MinRead False rejecting emptyCache
              (queryRequest ''service-key'' ''/a/file''))) = Some AccessNone \<and>
   map_option match (authInfoAfter (authorize exampleEnv MinRead False rejecting emptyCache
              (queryRequest ''service-key'' ''/a/file''))) = Some None"
  by (simp add: authorize_def Check_def extractAccessKey_def lookupApiKey_def queryRequest_def
        rejecting_def emptyCache_def respond_def outcome_def authInfoAfter_def exampleEnv_def)

text \<open>
  Claim C5. For a verified credential that is not the owner, whose requested access
  \<open>r\<close> is \<open>read\<close> or \<open>write\<close> and whose matcher, compiled from the two lists of its
  settings, accepts the request path: under
  \<open>minAccess = "read"\<close> the final access is \<open>r\<close>; under \<open>minAccess = "write"\<close> it is
  \<open>write\<close> when \<open>r\<close> is \<open>write\<close> and stays \<open>none\<close> when \<open>r\<close> is \<open>read\<close>, and then
  the response is 403 unless \<open>allowUnauthorized\<close> is set.
\<close>

theorem C5_min_access_table:
  assumes "authInfo request = None"
    and "extractAccessKey env request = (ty, Some key)"
    and "key \<noteq> []"
    and "key \<noteq> serviceApiKey env"
    and "lookupApiKey fetch cache key = Some (Some rec, cache')"
    and "\<not> locked rec"
    and "\<not> disabled rec"
    and "iam_id rec = resourceIamId env"
    and "requestedAccess False (settingsOf env rec) = JStr r"
    and "r = ''read'' \<or> r = ''write''"
    and "includeMatches (settingsOf env rec) = Some incl"
    and "excludeMatches (settingsOf env rec) = Some excl"
    and "compileMatch env False incl excl (substring (path request) 1)"
  shows "\<exists>ai. authInfoAfter (authorize env minAccess allow fetch cache request) = Some ai \<and>
           (minAccess = MinRead \<longrightarrow>
              access ai = (if r = ''write'' then AccessWrite else AccessRead)) \<and>
           (minAccess = MinWrite \<longrightarrow>
              access ai = (if r = ''write'' then AccessWrite else AccessNone)) \<and>
           (minAccess = MinWrite \<and> r = ''read'' \<and> \<not> allow \<longrightarrow>
              outcome (authorize env minAccess allow fetch cache request) = Sent forbidden \<and>
              status forbidden = 403)"
proof -
  let ?start = "\<lparr>access = AccessNone, type = Some ty, accessKey = Some key,
                 apiKey = Some (Some rec), settings = None, match = None\<rparr>"
  let ?fin = "snd (decide env minAccess request False rec ?start)"
  have "fst (decide env minAccess request False rec ?start) = False"
    by (rule decide_matched(1) [OF assms(9,10,11,12,13)])
  then have chk: "Check env minAccess fetch cache request = (False, ?fin, cache')"
    using Check_accepted [OF assms(2,3,5,6,7), where minAccess = minAccess] assms(4,8) by simp
  have run: "authorize env minAccess allow fetch cache request =
               (respond allow ?fin, request\<lparr>authInfo := Some ?fin\<rparr>, cache')"
    by (rule authorize_fresh [OF assms(1) chk])
  have out: "outcome (authorize env minAccess allow fetch cache request) = respond allow ?fin"
    by (simp add: run outcome_def)
  have acc: "access ?fin = finalAccess minAccess False (JStr r)"
    by (rule decide_matched(2) [OF assms(9,10,11,12,13)])
  have key: "accessKey ?fin = Some key"
    using decide_matched(3) [OF assms(9,10,11,12,13), where minAccess = minAccess
        and ai = ?start] by simp
  have a: "authInfoAfter (authorize env minAccess allow fetch cache request) = Some ?fin"
    by (simp add: run authInfoAfter_def)
  have b: "minAccess = MinRead \<longrightarrow> access ?fin = (if r = ''write'' then AccessWrite else AccessRead)"
    using assms(10) acc by (auto simp: finalAccess_def)
  have c: "minAccess = MinWrite \<longrightarrow> access ?fin = (if r = ''write'' then AccessWrite else AccessNone)"
    using assms(10) acc by (auto simp: finalAccess_def)
  have d: "minAccess = MinWrite \<and> r = ''read'' \<and> \<not> allow \<longrightarrow>
             outcome (authorize env minAccess allow fetch cache request) = Sent forbidden \<and>
             status forbidden = 403"
    unfolding out using assms(3) acc key by (auto simp: respond_def finalAccess_def forbidden_def)
  from a b c d show ?thesis by blast
qed

text \<open>
  C5 at a credential without settings (requested access \<open>read\<close>) under both minimum
  levels, and at one whose settings ask for \<open>write\<close>.
\<close>

theorem C5_min_access_table_witness:
  "authInfo (queryRequest ''k123'' ''/a/file'') = None \<and>
   extractAccessKey exampleEnv (queryRequest ''k123'' ''/a/file'') = (''accessKey'', Some ''k123'') \<and>
   ''k123'' \<noteq> serviceApiKey exampleEnv \<and>
   lookupApiKey (answering readerRecord) emptyCache ''k123'' =
     Some (Some readerRecord, emptyCache(''k123'' \<mapsto> Some readerRecord)) \<and>
   \<not> locked readerRecord \<and> \<not> disabled readerRecord \<and>
   iam_id readerRecord = resourceIamId exampleEnv \<and>
   requestedAccess False (settingsOf exampleEnv readerRecord) = JStr ''read'' \<and>
   includeMatches (settingsOf exampleEnv readerRecord) = Some [] \<and>
   excludeMatches (settingsOf exampleEnv readerRecord) = Some [] \<and>
   compileMatch exampleEnv False [] [] (substring (path (queryRequest ''k123'' ''/a/file'')) 1) \<and>
   map_option access (authInfoAfter (authorize exampleEnv MinRead False (answering readerRecord)
     emptyCache (queryRequest ''k123'' ''/a/file''))) = Some AccessRead \<and>
   map_option access (authInfoAfter (authorize exampleEnv MinWrite False (answering readerRecord)
     emptyCache (queryRequest ''k123'' ''/a/file''))) = Some AccessNone \<and>
   outcome (authorize exampleEnv MinWrite False (answering readerRecord)
     emptyCache (queryRequest ''k123'' ''/a/file'')) = Sent forbidden \<and>
   requestedAccess False (settingsOf exampleEnv writerRecord) = JStr ''write'' \<and>
   map_option access (authInfoAfter (authorize exampleEnv MinWrite False (answering writerRecord)
     emptyCache (queryRequest ''k123'' ''/a/file''))) = Some AccessWrite"
proof -
  let ?rq = "queryRequest ''k123'' ''/a/file''"
  have h1: "authInfo ?rq = None"
    by (simp add: queryRequest_def)
  have h2: "extractAccessKey exampleEnv ?rq = (''accessKey'', Some ''k123'')"
    by (simp add: extractAccessKey_def queryRequest_def)
  have h3: "''k123'' \<noteq> []"
    by simp
  have h4: "''k123'' \<noteq> serviceApiKey exampleEnv"
    by (simp add: exampleEnv_def)
  have h5: "lookupApiKey (answering readerRecord) emptyCache ''k123'' =
              Some (Some readerRecord, emptyCache(''k123'' \<mapsto> Some readerRecord))"
    by (simp add: lookupApiKey_def answering_def emptyCache_def)
  have h6: "\<not> locked readerRecord"
    by (simp add: readerRecord_def keyRecord_def)
  have h7: "\<not> disabled readerRecord"
    by (simp add: readerRecord_def keyRecord_def)
  have h8: "iam_id readerRecord = resourceIamId exampleEnv"
    by (simp add: readerRecord_def keyRecord_def exampleEnv_def)
  have stg: "settingsOf exampleEnv readerRecord = JNull"
    by (simp add: settingsOf_def parseSettings_def readerRecord_def keyRecord_def)
  have h9: "requestedAccess False (settingsOf exampleEnv readerRecord) = JStr ''read''"
    by (simp add: stg requestedAccess_def)
  have h10: "''read'' = ''read'' \<or> ''read'' = ''write''"
    by simp
  have h11: "includeMatches (settingsOf exampleEnv readerRecord) = Some []"
    by (simp add: stg includeMatches_def)
  have h12: "excludeMatches (settingsOf exampleEnv readerRecord) = Some []"
    by (simp add: stg excludeMatches_def)
  have h13: "compileMatch exampleEnv False [] [] (substring (path ?rq) 1)"
    by (simp add: compileMatch_def)
  from C5_min_access_table [OF h1 h2 h3 h4 h5 h6 h7 h8 h9 h10 h11 h12 h13, of MinRead False]
  have r: "map_option access (authInfoAfter (authorize exampleEnv MinRead False
             (answering readerRecord) emptyCache ?rq)) = Some AccessRead"
    by auto
  from C5_min_access_table [OF h1 h2 h3 h4 h5 h6 h7 h8 h9 h10 h11 h12 h13, of MinWrite False]
  have w: "map_option access (authInfoAfter (authorize exampleEnv MinWrite False
             (answering readerRecord) emptyCache ?rq)) = Some AccessNone \<and>
           outcome (authorize exampleEnv MinWrite False (answering readerRecord)
             emptyCache ?rq) = Sent forbidden"
    by auto
  have k5: "lookupApiKey (answering writerRecord) emptyCache ''k123'' =
              Some (Some writerRecord, emptyCache(''k123'' \<mapsto> Some writerRecord))"
    by (simp add: lookupApiKey_def answering_def emptyCache_def)
  have k6: "\<not> locked writerRecord"
    by (simp add: writerRecord_def keyRecord_def)
  have k7: "\<not> disabled writerRecord"
    by (simp add: writerRecord_def keyRecord_def)
  have k8: "iam_id writerRecord = resourceIamId exampleEnv"
    by (simp add: writerRecord_def keyRecord_def exampleEnv_def)
  have k9: "requestedAccess False (settingsOf exampleEnv writerRecord) = JStr ''write''"
    by (simp add: settingsOf_def parseSettings_def writerRecord_def keyRecord_def exampleEnv_def
          exampleParse_def writeDescription_def scopedDescription_def requestedAccess_def)
  have k10: "''write'' = ''read'' \<or> ''write'' = ''write''"
    by simp
  have k11: "includeMatches (settingsOf exampleEnv writerRecord) = Some []"
    by (simp add: settingsOf_def parseSettings_def writerRecord_def keyRecord_def exampleEnv_def
          exampleParse_def writeDescription_def scopedDescription_def includeMatches_def)
  have k12: "excludeMatches (settingsOf exampleEnv writerRecord) = Some []"
    by (simp add: settingsOf_def parseSettings_def writerRecord_def keyRecord_def exampleEnv_def
          exampleParse_def writeDescription_def scopedDescription_def excludeMatches_def)
  from C5_min_access_table [OF h1 h2 h3 h4 k5 k6 k7 k8 k9 k10 k11 k12 h13, of MinWrite False]
  have x: "map_option access (authInfoAfter (authorize exampleEnv MinWrite False
             (answering writerRecord) emptyCache ?rq)) = Some AccessWrite"
    by auto
  from h1 h2 h4 h5 h6 h7 h8 h9 h11 h12 h13 r w k9 x show ?thesis by blast
qed

text \<open>
  Claim C6. For a request without \<open>AuthInfo\<close> presenting a non-empty credential whose
  verification gives \<open>null\<close>, or a locked or disabled record, or a record of another
  owner while the credential is not the service credential: the final access is
  \<open>none\<close> and, unless \<open>allowUnauthorized\<close> is set, the response is 403 and the next
  handler is not called.
\<close>

theorem C6_rejected_credential_forbidden:
  assumes "authInfo request = None"
    and "extractAccessKey env request = (ty, Some key)"
    and "key \<noteq> []"
    and "lookupApiKey fetch cache key = Some (v, cache')"
    and "v = None \<or>
         (\<exists>rec. v = Some rec \<and>
            (locked rec \<or> disabled rec \<or>
             (key \<noteq> serviceApiKey env \<and> iam_id rec \<noteq> resourceIamId env)))"
  shows "\<exists>ai. authInfoAfter (authorize env minAccess allow fetch cache request) = Some ai \<and>
           access ai = AccessNone \<and>
           (\<not> allow \<longrightarrow>
              outcome (authorize env minAccess allow fetch cache request) = Sent forbidden \<and>
              status forbidden = 403)"
proof -
  obtain ai where chk: "Check env minAccess fetch cache request = (False, ai, cache')"
    and ai: "access ai = AccessNone" "accessKey ai = Some key"
    using Check_rejected [OF assms(2,3,4,5), of minAccess] by blast
  have run: "authorize env minAccess allow fetch cache request =
               (respond allow ai, request\<lparr>authInfo := Some ai\<rparr>, cache')"
    by (rule authorize_fresh [OF assms(1) chk])
  have out: "outcome (authorize env minAccess allow fetch cache request) = respond allow ai"
    by (simp add: run outcome_def)
  have "authInfoAfter (authorize env minAccess allow fetch cache request) = Some ai"
    by (simp add: run authInfoAfter_def)
  moreover have "\<not> allow \<longrightarrow>
      outcome (authorize env minAccess allow fetch cache request) = Sent forbidden \<and>
      status forbidden = 403"
    unfolding out using assms(3) ai by (simp add: respond_def forbidden_def)
  ultimately show ?thesis using ai(1) by blast
qed

text \<open>C6 at a credential sent in a Basic header, whose record belongs to another owner.\<close>

theorem C6_rejected_credential_forbidden_witness:
  "authInfo (basicRequest ''/a/file'') = None \<and>
   extractAccessKey exampleEnv (basicRequest ''/a/file'') = (''authHeader'', Some ''k123'') \<and>
   lookupApiKey (answering foreignRecord) emptyCache ''k123'' =
     Some (Some foreignRecord, emptyCache(''k123'' \<mapsto> Some foreignRecord)) \<and>
   ''k123'' \<noteq> serviceApiKey exampleEnv \<and>
   iam_id foreignRecord \<noteq> resourceIamId exampleEnv \<and>
   map_option access (authInfoAfter (authorize exampleEnv MinRead False (answering foreignRecord)
     emptyCache (basicRequest ''/a/file''))) = Some AccessNone \<and>
   outcome (authorize exampleEnv MinRead False (answering foreignRecord)
     emptyCache (basicRequest ''/a/file'')) = Sent forbidden"
proof -
  let ?rq = "basicRequest ''/a/file''"
  have h1: "authInfo ?rq = None"
    by (simp add: basicRequest_def)
  have h2: "extractAccessKey exampleEnv ?rq = (''authHeader'', Some ''k123'')"
    by (simp add: extractAccessKey_def basicRequest_def startsWith_def substring_def
          exampleEnv_def exampleDecode_def)
  have h3: "''k123'' \<noteq> []"
    by simp
  have h4: "lookupApiKey (answering foreignRecord) emptyCache ''k123'' =
              Some (Some foreignRecord, emptyCache(''k123'' \<mapsto> Some foreignRecord))"
    by (simp add: lookupApiKey_def answering_def emptyCache_def)
  have a: "''k123'' \<noteq> serviceApiKey exampleEnv"
    by (simp add: exampleEnv_def)
  have b: "iam_id foreignRecord \<noteq> resourceIamId exampleEnv"
    by (simp add: foreignRecord_def keyRecord_def exampleEnv_def)
  have h5: "Some foreignRecord = None \<or>
         (\<exists>rec. Some foreignRecord = Some rec \<and>
            (locked rec \<or> disabled rec \<or>
             (''k123'' \<noteq> serviceApiKey exampleEnv \<and> iam_id rec \<noteq> resourceIamId exampleEnv)))"
    using a b by simp
  from C6_rejected_credential_forbidden [OF h1 h2 h3 h4 h5, of MinRead False]
  have "map_option access (authInfoAfter (authorize exampleEnv MinRead False
          (answering foreignRecord) emptyCache ?rq)) = Some AccessNone \<and>
        outcome (authorize exampleEnv MinRead False (answering foreignRecord)
          emptyCache ?rq) = Sent forbidden"
    by auto
  with h1 h2 h4 a b show ?thesis by blast
qed

text \<open>
  Claim C7. For a request without \<open>AuthInfo\<close> that has no Authorization header and no
  string \<open>accessKey\<close> query parameter, or from which no credential or the empty one is
  extracted: the \<open>AuthInfo\<close> has access \<open>none\<close> and no \<open>accessKey\<close>, and unless
  \<open>allowUnauthorized\<close> is set the response is 401 with the header
  \<open>WWW-Authenticate: Basic\<close> and the next handler is not called.
\<close>

theorem C7_no_credential_unauthorized:
  assumes "authInfo request = None"
    and "(header_Authorization request = None \<and>
          (\<forall>s. query_accessKey request \<noteq> Some (QString s))) \<or>
         snd (extractAccessKey env request) = None \<or>
         snd (extractAccessKey env request) = Some []"
  shows "\<exists>ai. authInfoAfter (authorize env minAccess allow fetch cache request) = Some ai \<and>
           access ai = AccessNone \<and> accessKey ai = None \<and>
           (\<not> allow \<longrightarrow>
              outcome (authorize env minAccess allow fetch cache request) = Sent unauthorized \<and>
              status unauthorized = 401 \<and>
              (''WWW-Authenticate'', ''Basic'') \<in> set (headers unauthorized))"
proof -
  have "header_Authorization request = None \<and>
          (\<forall>s. query_accessKey request \<noteq> Some (QString s)) \<Longrightarrow>
        snd (extractAccessKey env request) = None"
    by (auto simp: extractAccessKey_def split: option.split QueryValue.split)
  with assms(2) have "snd (extractAccessKey env request) = None \<or>
      snd (extractAccessKey env request) = Some []"
    by blast
  then obtain ai where chk: "Check env minAccess fetch cache request = (False, ai, cache)"
    and ai: "access ai = AccessNone" "accessKey ai = None"
    using Check_no_key [of env request minAccess fetch cache] by blast
  have run: "authorize env minAccess allow fetch cache request =
               (respond allow ai, request\<lparr>authInfo := Some ai\<rparr>, cache)"
    by (rule authorize_fresh [OF assms(1) chk])
  have out: "outcome (authorize env minAccess allow fetch cache request) = respond allow ai"
    by (simp add: run outcome_def)
  have "authInfoAfter (authorize env minAccess allow fetch cache request) = Some ai"
    by (simp add: run authInfoAfter_def)
  moreover have "\<not> allow \<longrightarrow>
      outcome (authorize env minAccess allow fetch cache request) = Sent unauthorized \<and>
      status unauthorized = 401 \<and>
      (''WWW-Authenticate'', ''Basic'') \<in> set (headers unauthorized)"
    unfolding out using ai by (simp add: respond_def unauthorized_def)
  ultimately show ?thesis using ai by blast
qed

text \<open>C7 at a request with neither header nor query parameter.\<close>

theorem C7_no_credential_unauthorized_witness:
  "authInfo (bareRequest ''/a/file'') = None \<and>
   header_Authorization (bareRequest ''/a/file'') = None \<and>
   query_accessKey (bareRequest ''/a/file'') = None \<and>
   map_option access (authInfoAfter (authorize exampleEnv MinRead False rejecting emptyCache
     (bareRequest ''/a/file''))) = Some AccessNone \<and>
   map_option accessKey (authInfoAfter (authorize exampleEnv MinRead False rejecting emptyCache
     (bareRequest ''/a/file''))) = Some None \<and>
   outcome (authorize exampleEnv MinRead False rejecting emptyCache (bareRequest ''/a/file'')) =
     Sent unauthorized"
proof -
  let ?rq = "bareRequest ''/a/file''"
  have h1: "authInfo ?rq = None"
    by (simp add: bareRequest_def)
  have a: "header_Authorization ?rq = None"
    by (simp add: bareRequest_def)
  have b: "query_accessKey ?rq = None"
    by (simp add: bareRequest_def)
  have h2: "(header_Authorization ?rq = None \<and>
          (\<forall>s. query_accessKey ?rq \<noteq> Some (QString s))) \<or>
         snd (extractAccessKey exampleEnv ?rq) = None \<or>
         snd (extractAccessKey exampleEnv ?rq) = Some []"
    using a b by simp
  from C7_no_credential_unauthorized [OF h1 h2, of MinRead False rejecting emptyCache]
  have "map_option access (authInfoAfter (authorize exampleEnv MinRead False rejecting emptyCache
          ?rq)) = Some AccessNone \<and>
        map_option accessKey (authInfoAfter (authorize exampleEnv MinRead False rejecting
          emptyCache ?rq)) = Some None \<and>
        outcome (authorize exampleEnv MinRead False rejecting emptyCache ?rq) = Sent unauthorized"
    by auto
  with h1 a b show ?thesis by blast
qed

text \<open>
  Claim C8. For a verified credential that is not the owner and whose description does
  not parse as JSON: the settings are absent, the requested access is \<open>read\<close>, the
  stored matcher accepts every path, and the block runs to its end: the final access is
  \<open>read\<close> under \<open>minAccess = "read"\<close> (the next handler is called) and \<open>none\<close> under the
  other two levels.
\<close>

theorem C8_bad_json_fail_open:
  assumes "authInfo request = None"
    and "extractAccessKey env request = (ty, Some key)"
    and "key \<noteq> []"
    and "key \<noteq> serviceApiKey env"
    and "lookupApiKey fetch cache key = Some (Some rec, cache')"
    and "\<not> locked rec"
    and "\<not> disabled rec"
    and "iam_id rec = resourceIamId env"
    and "description rec = Some d"
    and "JSON_parse env d = None"
  shows "settingsOf env rec = JNull \<and>
         requestedAccess False (settingsOf env rec) = JStr ''read'' \<and>
         (\<exists>ai m. authInfoAfter (authorize env minAccess allow fetch cache request) = Some ai \<and>
            settings ai = None \<and> match ai = Some m \<and> (\<forall>p. m p) \<and>
            access ai = (if minAccess = MinRead then AccessRead else AccessNone)) \<and>
         (minAccess = MinRead \<longrightarrow>
            outcome (authorize env minAccess allow fetch cache request) = Next)"
proof -
  let ?start = "\<lparr>access = AccessNone, type = Some ty, accessKey = Some key,
                 apiKey = Some (Some rec), settings = None, match = None\<rparr>"
  let ?fin = "snd (decide env minAccess request False rec ?start)"
  have parsed: "parseSettings env rec = None"
    using assms(9,10) by (simp add: parseSettings_def)
  have "fst (decide env minAccess request False rec ?start) = False"
    by (rule decide_no_settings(1) [OF parsed])
  then have chk: "Check env minAccess fetch cache request = (False, ?fin, cache')"
    using Check_accepted [OF assms(2,3,5,6,7), where minAccess = minAccess] assms(4,8) by simp
  have run: "authorize env minAccess allow fetch cache request =
               (respond allow ?fin, request\<lparr>authInfo := Some ?fin\<rparr>, cache')"
    by (rule authorize_fresh [OF assms(1) chk])
  have out: "outcome (authorize env minAccess allow fetch cache request) = respond allow ?fin"
    by (simp add: run outcome_def)
  have s: "settings ?fin = None"
    using decide_no_settings(2) [OF parsed, where minAccess = minAccess and request = request
        and ai = ?start] by simp
  obtain m where m: "match ?fin = Some m" "\<forall>p. m p"
    using decide_no_settings(3) [OF parsed, where minAccess = minAccess and request = request
        and ai = ?start] by blast
  have acc: "access ?fin = (if minAccess = MinRead then AccessRead else AccessNone)"
    using decide_no_settings(4) [OF parsed, where minAccess = minAccess and request = request
        and ai = ?start]
    by (simp add: finalAccess_def)
  have a: "settingsOf env rec = JNull"
    by (simp add: settingsOf_def parsed)
  have b: "requestedAccess False (settingsOf env rec) = JStr ''read''"
    by (simp add: a requestedAccess_def)
  have c: "\<exists>ai m. authInfoAfter (authorize env minAccess allow fetch cache request) = Some ai \<and>
            settings ai = None \<and> match ai = Some m \<and> (\<forall>p. m p) \<and>
            access ai = (if minAccess = MinRead then AccessRead else AccessNone)"
    using s m acc by (simp add: run authInfoAfter_def)
  have d: "minAccess = MinRead \<longrightarrow>
            outcome (authorize env minAccess allow fetch cache request) = Next"
  proof
    assume "minAccess = MinRead"
    with acc have "access ?fin = AccessRead" by simp
    then show "outcome (authorize env minAccess allow fetch cache request) = Next"
      unfolding out by (simp add: respond_def)
  qed
  from a b c d show ?thesis by blast
qed

text \<open>C8 at a record whose description is not JSON.\<close>

theorem C8_bad_json_fail_open_witness:
  "authInfo (queryRequest ''k123'' ''/a/file'') = None \<and>
   extractAccessKey exampleEnv (queryRequest ''k123'' ''/a/file'') = (''accessKey'', Some ''k123'') \<and>
   ''k123'' \<noteq> serviceApiKey exampleEnv \<and>
   lookupApiKey (answering brokenRecord) emptyCache ''k123'' =
     Some (Some brokenRecord, emptyCache(''k123'' \<mapsto> Some brokenRecord)) \<and>
   \<not> locked brokenRecord \<and> \<not> disabled brokenRecord \<and>
   iam_id brokenRecord = resourceIamId exampleEnv \<and>
   description brokenRecord = Some ''{not json'' \<and>
   JSON_parse exampleEnv ''{not json'' = None \<and>
   map_option access (authInfoAfter (authorize exampleEnv MinRead False (answering brokenRecord)
     emptyCache (queryRequest ''k123'' ''/a/file''))) = Some AccessRead \<and>
   outcome (authorize exampleEnv MinRead False (answering brokenRecord)
     emptyCache (queryRequest ''k123'' ''/a/file'')) = Next"
proof -
  let ?rq = "queryRequest ''k123'' ''/a/file''"
  have h1: "authInfo ?rq = None"
    by (simp add: queryRequest_def)
  have h2: "extractAccessKey exampleEnv ?rq = (''accessKey'', Some ''k123'')"
    by (simp add: extractAccessKey_def queryRequest_def)
  have h3: "''k123'' \<noteq> []"
    by simp
  have h4: "''k123'' \<noteq> serviceApiKey exampleEnv"
    by (simp add: exampleEnv_def)
  have h5: "lookupApiKey (answering brokenRecord) emptyCache ''k123'' =
              Some (Some brokenRecord, emptyCache(''k123'' \<mapsto> Some brokenRecord))"
    by (simp add: lookupApiKey_def answering_def emptyCache_def)
  have h6: "\<not> locked brokenRecord"
    by (simp add: brokenRecord_def keyRecord_def)
  have h7: "\<not> disabled brokenRecord"
    by (simp add: brokenRecord_def keyRecord_def)
  have h8: "iam_id brokenRecord = resourceIamId exampleEnv"
    by (simp add: brokenRecord_def keyRecord_def exampleEnv_def)
  have h9: "description brokenRecord = Some ''{not json''"
    by (simp add: brokenRecord_def keyRecord_def)
  have h10: "JSON_parse exampleEnv ''{not json'' = None"
    by (simp add: exampleEnv_def exampleParse_def scopedDescription_def writeDescription_def)
  from C8_bad_json_fail_open [OF h1 h2 h3 h4 h5 h6 h7 h8 h9 h10, of MinRead False]
  have "map_option access (authInfoAfter (authorize exampleEnv MinRead False
          (answering brokenRecord) emptyCache ?rq)) = Some AccessRead \<and>
        outcome (authorize exampleEnv MinRead False (answering brokenRecord)
          emptyCache ?rq) = Next"
    by auto
  with h1 h2 h4 h5 h6 h7 h8 h9 h10 show ?thesis by blast
qed

text \<open>
  Claim C9, as amended. For a request without \<open>AuthInfo\<close> presenting a non-empty
  credential that is not in the cache: when the provider call fails in transport, the
  exception leaves the middleware and the cache is unchanged; when the provider answers
  with a failure status, \<open>null\<close> is stored in the cache for the credential and in the
  \<open>AuthInfo\<close>, and the access is \<open>none\<close>.
\<close>

theorem C9_transport_failure_not_cached:
  assumes "authInfo request = None"
    and "extractAccessKey env request = (ty, Some key)"
    and "key \<noteq> []"
    and "cache key = None"
  shows "(fetch key = FetchRejected \<longrightarrow>
            outcome (authorize env minAccess allow fetch cache request) = Thrown \<and>
            cacheAfter (authorize env minAccess allow fetch cache request) = cache) \<and>
         (fetch key = NotOk \<longrightarrow>
            outcome (authorize env minAccess allow fetch cache request) \<noteq> Thrown \<and>
            cacheAfter (authorize env minAccess allow fetch cache request) = cache(key \<mapsto> None) \<and>
            (\<exists>ai. authInfoAfter (authorize env minAccess allow fetch cache request) = Some ai \<and>
                  apiKey ai = Some None \<and> access ai = AccessNone))"
proof (intro conjI impI)
  assume f: "fetch key = FetchRejected"
  have "lookupApiKey fetch cache key = None"
    using assms(4) f by (simp add: lookupApiKey_def)
  from Check_thrown [OF assms(2,3) this, of minAccess]
  obtain ai where chk: "Check env minAccess fetch cache request = (True, ai, cache)"
    by blast
  have run: "authorize env minAccess allow fetch cache request =
               (Thrown, request\<lparr>authInfo := Some ai\<rparr>, cache)"
    by (rule authorize_thrown [OF assms(1) chk])
  show "outcome (authorize env minAccess allow fetch cache request) = Thrown"
    by (simp add: run outcome_def)
  show "cacheAfter (authorize env minAccess allow fetch cache request) = cache"
    by (simp add: run cacheAfter_def)
next
  assume f: "fetch key = NotOk"
  have l: "lookupApiKey fetch cache key = Some (None, cache(key \<mapsto> None))"
    using assms(4) f by (simp add: lookupApiKey_def)
  from Check_rejected [OF assms(2,3) l, where minAccess = minAccess]
  obtain ai where chk: "Check env minAccess fetch cache request = (False, ai, cache(key \<mapsto> None))"
    and ai: "access ai = AccessNone" "apiKey ai = Some None"
    by blast
  have run: "authorize env minAccess allow fetch cache request =
               (respond allow ai, request\<lparr>authInfo := Some ai\<rparr>, cache(key \<mapsto> None))"
    by (rule authorize_fresh [OF assms(1) chk])
  show "outcome (authorize env minAccess allow fetch cache request) \<noteq> Thrown"
    by (simp add: run outcome_def respond_def split: option.split)
  show "cacheAfter (authorize env minAccess allow fetch cache request) = cache(key \<mapsto> None)"
    by (simp add: run cacheAfter_def)
  show "\<exists>ai. authInfoAfter (authorize env minAccess allow fetch cache request) = Some ai \<and>
          apiKey ai = Some None \<and> access ai = AccessNone"
    using ai by (simp add: run authInfoAfter_def)
qed

text \<open>C9 at an empty cache, with a provider that cannot be reached and one that answers with a failure status.\<close>

theorem C9_transport_failure_not_cached_witness:
  "authInfo (queryRequest ''k123'' ''/a/file'') = None \<and>
   extractAccessKey exampleEnv (queryRequest ''k123'' ''/a/file'') = (''accessKey'', Some ''k123'') \<and>
   emptyCache ''k123'' = None \<and>
   unreachable ''k123'' = FetchRejected \<and>
   rejecting ''k123'' = NotOk \<and>
   cacheAfter (authorize exampleEnv MinRead False unreachable emptyCache
     (queryRequest ''k123'' ''/a/file'')) = emptyCache \<and>
   cacheAfter (authorize exampleEnv MinRead False rejecting emptyCache
     (queryRequest ''k123'' ''/a/file'')) = emptyCache(''k123'' \<mapsto> None)"
proof -
  let ?rq = "queryRequest ''k123'' ''/a/file''"
  have h1: "authInfo ?rq = None"
    by (simp add: queryRequest_def)
  have h2: "extractAccessKey exampleEnv ?rq = (''accessKey'', Some ''k123'')"
    by (simp add: extractAccessKey_def queryRequest_def)
  have h3: "''k123'' \<noteq> []"
    by simp
  have h4: "emptyCache ''k123'' = None"
    by (simp add: emptyCache_def)
  have a: "unreachable ''k123'' = FetchRejected"
    by (simp add: unreachable_def)
  have b: "rejecting ''k123'' = NotOk"
    by (simp add: rejecting_def)
  from C9_transport_failure_not_cached [where cache = emptyCache and key = "''k123''"
      and fetch = unreachable and minAccess = MinRead and allow = False, OF h1 h2 h3 h4] a
  have c: "cacheAfter (authorize exampleEnv MinRead False unreachable emptyCache ?rq) = emptyCache"
    by blast
  from C9_transport_failure_not_cached [where cache = emptyCache and key = "''k123''"
      and fetch = rejecting and minAccess = MinRead and allow = False, OF h1 h2 h3 h4] b
  have d: "cacheAfter (authorize exampleEnv MinRead False rejecting emptyCache ?rq) =
             emptyCache(''k123'' \<mapsto> None)"
    by blast
  from h1 h2 h4 a b c d show ?thesis by blast
qed

text \<open>
  Claim C9 as stated fails: after a transport failure the cache holds nothing for the
  credential, where a failure status leaves \<open>null\<close> there.
\<close>

theorem C9_transport_failure_counterexample:
  "outcome (authorize exampleEnv MinRead False unreachable emptyCache
              (queryRequest ''k123'' ''/a/file'')) = Thrown \<and>
   cacheAfter (authorize exampleEnv MinRead False unreachable emptyCache
              (queryRequest ''k123'' ''/a/file'')) ''k123'' = None \<and>
   cacheAfter (authorize exampleEnv MinRead False rejecting emptyCache
              (queryRequest ''k123'' ''/a/file'')) ''k123'' = Some None"
  by (simp add: authorize_def Check_def extractAccessKey_def lookupApiKey_def queryRequest_def
        unreachable_def rejecting_def emptyCache_def outcome_def cacheAfter_def respond_def)

text \<open>
  Claim C10, as amended. For \<open>null\<close>, \<open>undefined\<close> and every string of at most 65536
  characters, \<open>validpath\<close> returns, and it returns true exactly for a non-empty string
  that is neither \<open>api\<close> nor \<open>README\<close>, does not start with \<open>api/\<close> and has no magic
  under Minimatch; so it returns false for \<open>null\<close>, \<open>undefined\<close> and the empty string.
  For a longer string it returns false when the string starts with \<open>api/\<close> and
  otherwise leaves with the exception of the Minimatch constructor.
\<close>

theorem C10_validpath:
  "((\<forall>s. p = Str s \<longrightarrow> length s \<le> 65536) \<longrightarrow>
      validpath env p =
        Some (\<exists>s. p = Str s \<and> s \<noteq> [] \<and> s \<noteq> ''api'' \<and> s \<noteq> ''README'' \<and>
                   \<not> prefix ''api/'' s \<and> \<not> hasMagic env (Minimatch s))) \<and>
   (\<forall>s. p = Str s \<and> length s > 65536 \<longrightarrow>
      validpath env p = (if prefix ''api/'' s then Some False else None))"
  by (cases p)
    (auto simp: validpath_def startsWith_prefix newMinimatch_def MAX_PATTERN_LENGTH_def)

text \<open>C10 at six arguments that are short enough, and at a string of 65537 characters.\<close>

theorem C10_validpath_witness:
  "validpath exampleEnv (Str ''docs/guide.txt'') = Some True \<and>
   validpath exampleEnv (Str ''api/keys'') = Some False \<and>
   validpath exampleEnv (Str ''docs/*.txt'') = Some False \<and>
   validpath exampleEnv (Str []) = Some False \<and>
   validpath exampleEnv Null = Some False \<and>
   validpath exampleEnv Undefined = Some False \<and>
   length longPath > 65536 \<and>
   validpath exampleEnv (Str longPath) = None"
proof -
  have len: "length longPath > 65536"
    by (simp add: longPath_def)
  have "validpath exampleEnv (Str longPath) = None"
    using C10_validpath [of "Str longPath" exampleEnv] len longPath_plain(4) by simp
  then show ?thesis
    using C10_validpath [of "Str ''docs/guide.txt''" exampleEnv]
      C10_validpath [of "Str ''api/keys''" exampleEnv]
      C10_validpath [of "Str ''docs/*.txt''" exampleEnv]
      C10_validpath [of "Str []" exampleEnv]
      C10_validpath [of Null exampleEnv]
      C10_validpath [of Undefined exampleEnv]
      len
    by (simp add: exampleEnv_def)
qed

text \<open>
  Claim C10 as stated fails: a string of 65537 letters \<open>x\<close> is non-empty, is neither
  \<open>api\<close> nor \<open>README\<close>, does not start with \<open>api/\<close> and holds no character other than
  \<open>x\<close>, yet \<open>validpath\<close> does not return true for it: the constructor throws.
\<close>

theorem C10_overlong_path_counterexample:
  "validpath exampleEnv (Str longPath) = None \<and>
   longPath \<noteq> [] \<and> longPath \<noteq> ''api'' \<and> longPath \<noteq> ''README'' \<and>
   \<not> prefix ''api/'' longPath \<and> set longPath = {CHR ''x''}"
proof -
  have "length longPath > MAX_PATTERN_LENGTH"
    by (simp add: longPath_def MAX_PATTERN_LENGTH_def)
  then have "validpath exampleEnv (Str longPath) = None"
    using longPath_plain by (simp add: validpath_def startsWith_prefix newMinimatch_def)
  then show ?thesis
    using longPath_plain longPath_chars by simp
qed

end
